theory Spec2Isabelle
  imports Complex_Main "HOL-Library.Word"
begin

section \<open>ofxStructureCore: frame hand-off and depth unprojection\<close>

text \<open>
  A shallow embedding of \<^verbatim>\<open>src/ofxStructureCore.cpp\<close>. The object is a record of its
  members, every member function takes the object and returns it updated. A private member
  \<^verbatim>\<open>_name\<close> of the C++ class is the field \<open>m_name\<close> here; public members keep their names.

  The single-precision type \<^verbatim>\<open>float\<close> is the type parameter \<open>'f\<close>. The functions use only
  the operations the source uses on it (\<open>*\<close>, \<open>-\<close>, \<open>/\<close>, the constants \<open>0\<close> and \<open>1\<close>), through
  the syntactic classes, which carry no algebraic law; the conversion of an \<^verbatim>\<open>int\<close> loop
  counter to \<^verbatim>\<open>float\<close> is the parameter \<open>toFloat\<close>. What is proved therefore holds for any
  arithmetic, rounding or exact. The comparison \<^verbatim>\<open>==\<close> of two matrices is HOL equality.

  Each callback and each member function runs as one atomic step: the interleaving of the
  capture thread with the consumer thread is not part of the model. Log output is not part
  of the state.
\<close>

subsection \<open>Data delivered by the sensor SDK\<close>

record 'f vec3 =
  vec_x :: 'f
  vec_y :: 'f
  vec_z :: 'f

record 'f Intrinsics =
  fx :: 'f
  fy :: 'f
  cx :: 'f
  cy :: 'f

type_synonym 'f mat4 = "'f list"

text \<open>\<^verbatim>\<open>glm::mat4(1)\<close>: the identity, sixteen entries, column by column.\<close>

definition mat4_identity :: "'f::{zero,one} mat4" where
  "mat4_identity = [1, 0, 0, 0,  0, 1, 0, 0,  0, 0, 1, 0,  0, 0, 0, 1]"

text \<open>\<^verbatim>\<open>glm::make_mat4(p)\<close> reads sixteen entries from \<open>p\<close>.\<close>

definition make_mat4 :: "'f list \<Rightarrow> 'f mat4" where
  "make_mat4 m = take 16 m"

text \<open>
  The SDK's frame classes are opaque; a frame is the record of what the source reads from
  it: \<^verbatim>\<open>isValid()\<close>, \<^verbatim>\<open>width()\<close>, \<^verbatim>\<open>height()\<close>, the pixel buffer, and for a depth frame
  \<^verbatim>\<open>glProjectionMatrix().m\<close> and \<^verbatim>\<open>intrinsics()\<close>.
\<close>

record 'f depth_frame =
  depth_isValid :: bool
  depth_width :: nat
  depth_height :: nat
  depthInMillimeters :: "'f list"
  glProjectionMatrix :: "'f list"
  intrinsics :: "'f Intrinsics"

record infrared_frame =
  ir_isValid :: bool
  ir_width :: nat
  ir_height :: nat
  ir_data :: "16 word list"

record color_frame =
  visible_isValid :: bool
  visible_width :: nat
  visible_height :: nat
  rgbData :: "8 word list"

record 'f accelerometer_event =
  acceleration :: "'f vec3"

record 'f gyroscope_event =
  rotationRate :: "'f vec3"

text \<open>\<^verbatim>\<open>Frame::Type\<close>; \<open>OtherType k\<close> is any enumerator the \<^verbatim>\<open>switch\<close> has no case for.\<close>

datatype FrameType =
    DepthFrame
  | VisibleFrame
  | InfraredFrame
  | SynchronizedFrames
  | AccelerometerEvent
  | GyroscopeEvent
  | OtherType int

record 'f Frame =
  ftype :: FrameType
  depthFrame :: "'f depth_frame"
  visibleFrame :: color_frame
  infraredFrame :: infrared_frame
  accelerometerEvent :: "'f accelerometer_event"
  gyroscopeEvent :: "'f gyroscope_event"

text \<open>\<^verbatim>\<open>ST::CaptureSessionEventId\<close>; \<open>OtherEvent k\<close> is any enumerator without a case.\<close>

datatype EventType =
    Booting
  | Ready
  | Connected
  | Streaming
  | Disconnected
  | Error
  | OtherEvent int

subsection \<open>The object\<close>

text \<open>
  An image container: its size and its pixel buffer. \<^verbatim>\<open>setFromPixels(p, w, h, channels)\<close>
  sets the size and copies \<open>w * h * channels\<close> elements from \<open>p\<close>.
\<close>

record 'p ofImage =
  img_width :: nat
  img_height :: nat
  img_pixels :: "'p list"

definition setFromPixels :: "'p list \<Rightarrow> nat \<Rightarrow> nat \<Rightarrow> nat \<Rightarrow> 'p ofImage \<Rightarrow> 'p ofImage" where
  "setFromPixels p w h channels img =
     img\<lparr>img_width := w, img_height := h, img_pixels := take (w * h * channels) p\<rparr>"

record 'f PointCloud =
  vertices :: "'f vec3 list"

text \<open>
  The capture session is an external collaborator: the object only calls it. The field
  \<open>m_captureSession\<close> is the list of calls made so far, oldest first; what a call returns
  is an argument of the member function that makes it.
\<close>

datatype session_call = StartMonitoring | StartStreaming | StopStreaming

record 'f core =
  m_captureSession :: "session_call list"
  m_isStreaming :: bool
  m_streamOnReady :: bool
  m_isFrameNew :: bool
  m_depthDirty :: bool
  m_irDirty :: bool
  m_visibleDirty :: bool
  m_depthFrame :: "'f depth_frame"
  m_irFrame :: infrared_frame
  m_visibleFrame :: color_frame
  m_accelerometerEvent :: "'f accelerometer_event"
  m_gyroscopeEvent :: "'f gyroscope_event"
  m_depthProjectionMatrix :: "'f mat4"
  m_depthIntrinsics :: "'f Intrinsics"
  depthImg :: "'f ofImage"
  irImg :: "16 word ofImage"
  visibleImg :: "8 word ofImage"
  pointcloud :: "'f PointCloud"
  vbo :: "'f vec3 list"

subsection \<open>setup, start, stop\<close>

text \<open>
  \<^verbatim>\<open>bool setup(const Settings&)\<close>: \<open>monitoring\<close> is what \<^verbatim>\<open>startMonitoring(settings)\<close>
  returned. Both branches only write to the log and control then reaches the end of the
  function: there is no \<^verbatim>\<open>return\<close> statement. The returned value is \<open>None\<close> when the
  function hands no value back. (\<open>setup\<close> is a keyword of Isabelle, hence \<open>setup_core\<close>.)
\<close>

definition setup_core :: "bool \<Rightarrow> 'f core \<Rightarrow> bool option \<times> 'f core" where
  "setup_core monitoring s =
     (let s1 = s\<lparr>m_captureSession := m_captureSession s @ [StartMonitoring]\<rparr>
      in if monitoring then (None, s1) else (None, s1))"

text \<open>\<^verbatim>\<open>bool start()\<close>: \<open>streaming\<close> is what \<^verbatim>\<open>startStreaming()\<close> returned.\<close>

definition start :: "bool \<Rightarrow> 'f core \<Rightarrow> bool \<times> 'f core" where
  "start streaming s =
     (let s1 = s\<lparr>m_captureSession := m_captureSession s @ [StartStreaming],
                 m_isStreaming := streaming\<rparr>;
          s2 = (if \<not> m_isStreaming s1 \<and> \<not> m_streamOnReady s1
                then s1\<lparr>m_streamOnReady := True\<rparr> else s1)
      in (m_isStreaming s2, s2))"

definition stop :: "'f core \<Rightarrow> 'f core" where
  "stop s = s\<lparr>m_captureSession := m_captureSession s @ [StopStreaming],
              m_isStreaming := False,
              m_streamOnReady := False\<rparr>"

subsection \<open>The point cloud\<close>

text \<open>\<^verbatim>\<open>std::vector::resize(n)\<close>: keeps the first \<open>n\<close> elements, pads with value-initialised ones.\<close>

definition resize :: "nat \<Rightarrow> 'f::zero vec3 list \<Rightarrow> 'f vec3 list" where
  "resize n vs = take n vs @ replicate (n - length vs) \<lparr>vec_x = 0, vec_y = 0, vec_z = 0\<rparr>"

text \<open>The body of the inner loop of \<^verbatim>\<open>updatePointCloud\<close>, at row \<open>r\<close> and column \<open>c\<close>.\<close>

definition project_pixel ::
  "(int \<Rightarrow> 'f) \<Rightarrow> 'f::{times,minus,inverse} Intrinsics \<Rightarrow> nat \<Rightarrow> 'f list \<Rightarrow> nat \<Rightarrow> nat
     \<Rightarrow> 'f vec3 list \<Rightarrow> 'f vec3 list" where
  "project_pixel toFloat K cols depths r c vs =
     (let i = r * cols + c;
          depth = depths ! i
      in vs[i := (vs ! i)\<lparr>vec_x := depth * (toFloat (int c) - cx K) / fx K,
                          vec_y := depth * (toFloat (int r) - cy K) / fy K,
                          vec_z := depth\<rparr>])"

definition project_row ::
  "(int \<Rightarrow> 'f) \<Rightarrow> 'f::{times,minus,inverse} Intrinsics \<Rightarrow> nat \<Rightarrow> 'f list \<Rightarrow> nat
     \<Rightarrow> 'f vec3 list \<Rightarrow> 'f vec3 list" where
  "project_row toFloat K cols depths r vs =
     fold (project_pixel toFloat K cols depths r) [0..<cols] vs"

definition updatePointCloud ::
  "(int \<Rightarrow> 'f) \<Rightarrow> 'f::{zero,times,minus,inverse} core \<Rightarrow> 'f core" where
  "updatePointCloud toFloat s =
     (let cols = img_width (depthImg s);
          rows = img_height (depthImg s);
          depths = img_pixels (depthImg s);
          nVerts = rows * cols;
          vs0 = resize nVerts (vertices (pointcloud s));
          vs1 = fold (project_row toFloat (m_depthIntrinsics s) cols depths) [0..<rows] vs0
      in s\<lparr>pointcloud := (pointcloud s)\<lparr>vertices := vs1\<rparr>,
           vbo := take nVerts vs1\<rparr>)"

subsection \<open>update: the drain\<close>

definition update :: "(int \<Rightarrow> 'f) \<Rightarrow> 'f::{zero,times,minus,inverse} core \<Rightarrow> 'f core" where
  "update toFloat s =
     (let s0 = s\<lparr>m_isFrameNew := (m_depthDirty s \<or> m_irDirty s \<or> m_visibleDirty s)\<rparr>;
          s1 = (if m_depthDirty s0
                then (updatePointCloud toFloat
                        (s0\<lparr>depthImg := setFromPixels (depthInMillimeters (m_depthFrame s0))
                                (depth_width (m_depthFrame s0)) (depth_height (m_depthFrame s0)) 1
                                (depthImg s0)\<rparr>))
                     \<lparr>m_depthDirty := False\<rparr>
                else s0);
          s2 = (if m_irDirty s1
                then s1\<lparr>irImg := setFromPixels (ir_data (m_irFrame s1))
                              (ir_width (m_irFrame s1)) (ir_height (m_irFrame s1)) 1 (irImg s1),
                        m_irDirty := False\<rparr>
                else s1);
          s3 = (if m_visibleDirty s2
                then s2\<lparr>visibleImg := setFromPixels (rgbData (m_visibleFrame s2))
                              (visible_width (m_visibleFrame s2)) (visible_height (m_visibleFrame s2)) 3
                              (visibleImg s2),
                        m_visibleDirty := False\<rparr>
                else s2)
      in s3)"

subsection \<open>The capture callbacks\<close>

text \<open>The \<^verbatim>\<open>switch\<close> of \<^verbatim>\<open>handleNewFrame\<close>, without the statement that follows it.\<close>

fun storeFrame :: "FrameType \<Rightarrow> 'f Frame \<Rightarrow> 'f core \<Rightarrow> 'f core" where
  "storeFrame DepthFrame frame s =
     s\<lparr>m_depthFrame := depthFrame frame, m_depthDirty := True\<rparr>"
| "storeFrame VisibleFrame frame s =
     s\<lparr>m_visibleFrame := visibleFrame frame, m_visibleDirty := True\<rparr>"
| "storeFrame InfraredFrame frame s =
     s\<lparr>m_irFrame := infraredFrame frame, m_irDirty := True\<rparr>"
| "storeFrame SynchronizedFrames frame s =
     (let s1 = (if depth_isValid (depthFrame frame)
                then s\<lparr>m_depthFrame := depthFrame frame, m_depthDirty := True\<rparr> else s);
          s2 = (if visible_isValid (visibleFrame frame)
                then s1\<lparr>m_visibleFrame := visibleFrame frame, m_visibleDirty := True\<rparr> else s1);
          s3 = (if ir_isValid (infraredFrame frame)
                then s2\<lparr>m_irFrame := infraredFrame frame, m_irDirty := True\<rparr> else s2)
      in s3)"
| "storeFrame AccelerometerEvent frame s =
     s\<lparr>m_accelerometerEvent := accelerometerEvent frame\<rparr>"
| "storeFrame GyroscopeEvent frame s =
     s\<lparr>m_gyroscopeEvent := gyroscopeEvent frame\<rparr>"
| "storeFrame (OtherType k) frame s = s"

text \<open>The statement after the \<^verbatim>\<open>switch\<close>: it runs for a frame of every kind.\<close>

definition captureIntrinsics :: "'f::{zero,one} core \<Rightarrow> 'f core" where
  "captureIntrinsics s =
     (if m_depthDirty s \<and> m_depthProjectionMatrix s = mat4_identity
      then s\<lparr>m_depthProjectionMatrix := make_mat4 (glProjectionMatrix (m_depthFrame s)),
             m_depthIntrinsics := intrinsics (m_depthFrame s)\<rparr>
      else s)"

definition handleNewFrame :: "'f::{zero,one} core \<Rightarrow> 'f Frame \<Rightarrow> 'f core" where
  "handleNewFrame s frame = captureIntrinsics (storeFrame (ftype frame) frame s)"

text \<open>
  \<^verbatim>\<open>handleSessionEvent\<close>: \<open>streaming\<close> is what \<^verbatim>\<open>startStreaming()\<close> returns if the handler
  calls \<^verbatim>\<open>start()\<close>.
\<close>

fun handleSessionEvent :: "bool \<Rightarrow> EventType \<Rightarrow> 'f core \<Rightarrow> 'f core" where
  "handleSessionEvent streaming Booting s = s"
| "handleSessionEvent streaming Ready s =
     (if m_streamOnReady s then snd (start streaming s) else s)"
| "handleSessionEvent streaming Connected s = s"
| "handleSessionEvent streaming Streaming s = s\<lparr>m_isStreaming := True\<rparr>"
| "handleSessionEvent streaming Disconnected s = s\<lparr>m_isStreaming := False\<rparr>"
| "handleSessionEvent streaming Error s = s"
| "handleSessionEvent streaming (OtherEvent k) s = s"

subsection \<open>Runs of the object\<close>

text \<open>
  What the application and the capture session do to the object, one call at a time:
  a callback of the session or a call of a public member function, each with what the
  session answers during it.
\<close>

datatype 'f event =
    NewFrame "'f Frame"
  | SessionEvent bool EventType
  | Update
  | Start bool
  | Stop
  | Setup bool

fun apply_event :: "(int \<Rightarrow> 'f) \<Rightarrow> 'f event \<Rightarrow> 'f::{zero,one,times,minus,inverse} core \<Rightarrow> 'f core" where
  "apply_event toFloat (NewFrame frame) s = handleNewFrame s frame"
| "apply_event toFloat (SessionEvent streaming evt) s = handleSessionEvent streaming evt s"
| "apply_event toFloat Update s = update toFloat s"
| "apply_event toFloat (Start streaming) s = snd (start streaming s)"
| "apply_event toFloat Stop s = stop s"
| "apply_event toFloat (Setup monitoring) s = snd (setup_core monitoring s)"

definition run :: "(int \<Rightarrow> 'f) \<Rightarrow> 'f event list \<Rightarrow> 'f::{zero,one,times,minus,inverse} core \<Rightarrow> 'f core" where
  "run toFloat es s = fold (apply_event toFloat) es s"

text \<open>A frame that delivers a depth image: a depth frame, or a bundle whose depth part is valid.\<close>

definition carriesDepth :: "'f Frame \<Rightarrow> bool" where
  "carriesDepth frame \<longleftrightarrow>
     ftype frame = DepthFrame \<or> (ftype frame = SynchronizedFrames \<and> depth_isValid (depthFrame frame))"

fun deliversDepth :: "'f event \<Rightarrow> bool" where
  "deliversDepth (NewFrame frame) = carriesDepth frame"
| "deliversDepth _ = False"

subsection \<open>The specification's unprojection\<close>

text \<open>
  The vertex the specification gives for the pixel at row \<open>r\<close>, column \<open>c\<close> with depth \<open>d\<close>,
  and the point cloud of an image: one vertex per pixel, row by row.
\<close>

definition pixel_vertex ::
  "(int \<Rightarrow> 'f) \<Rightarrow> 'f::{times,minus,inverse} Intrinsics \<Rightarrow> 'f \<Rightarrow> nat \<Rightarrow> nat \<Rightarrow> 'f vec3" where
  "pixel_vertex toFloat K d r c =
     \<lparr>vec_x = d * (toFloat (int c) - cx K) / fx K,
      vec_y = d * (toFloat (int r) - cy K) / fy K,
      vec_z = d\<rparr>"

definition unproject ::
  "(int \<Rightarrow> 'f) \<Rightarrow> 'f::{times,minus,inverse} Intrinsics \<Rightarrow> 'f ofImage \<Rightarrow> 'f vec3 list" where
  "unproject toFloat K img =
     map (\<lambda>i. pixel_vertex toFloat K (img_pixels img ! i) (i div img_width img) (i mod img_width img))
         [0..<img_height img * img_width img]"

subsection \<open>Sample data\<close>

text \<open>
  Modelled from the spec: the initial values of the members are set in
  \<^verbatim>\<open>ofxStructureCore.h\<close>, which is not among the sources. The specification gives the
  identity as the projection matrix before the capture and no pending frame; the frame
  slots, images and point cloud are empty.
\<close>

definition fresh_core :: "'f::{zero,one} core" where
  "fresh_core =
     \<lparr>m_captureSession = [],
      m_isStreaming = False,
      m_streamOnReady = False,
      m_isFrameNew = False,
      m_depthDirty = False,
      m_irDirty = False,
      m_visibleDirty = False,
      m_depthFrame = \<lparr>depth_isValid = False, depth_width = 0, depth_height = 0,
                       depthInMillimeters = [], glProjectionMatrix = replicate 16 0,
                       intrinsics = \<lparr>fx = 0, fy = 0, cx = 0, cy = 0\<rparr>\<rparr>,
      m_irFrame = \<lparr>ir_isValid = False, ir_width = 0, ir_height = 0, ir_data = []\<rparr>,
      m_visibleFrame = \<lparr>visible_isValid = False, visible_width = 0, visible_height = 0,
                         rgbData = []\<rparr>,
      m_accelerometerEvent = \<lparr>acceleration = \<lparr>vec_x = 0, vec_y = 0, vec_z = 0\<rparr>\<rparr>,
      m_gyroscopeEvent = \<lparr>rotationRate = \<lparr>vec_x = 0, vec_y = 0, vec_z = 0\<rparr>\<rparr>,
      m_depthProjectionMatrix = mat4_identity,
      m_depthIntrinsics = \<lparr>fx = 0, fy = 0, cx = 0, cy = 0\<rparr>,
      depthImg = \<lparr>img_width = 0, img_height = 0, img_pixels = []\<rparr>,
      irImg = \<lparr>img_width = 0, img_height = 0, img_pixels = []\<rparr>,
      visibleImg = \<lparr>img_width = 0, img_height = 0, img_pixels = []\<rparr>,
      pointcloud = \<lparr>vertices = []\<rparr>,
      vbo = []\<rparr>"

text \<open>
  Two depth frames of two by two pixels with different pixels, projection matrices and
  intrinsics, and frames of a chosen kind that carry them.
\<close>

definition depthA :: "real depth_frame" where
  "depthA =
     \<lparr>depth_isValid = True, depth_width = 2, depth_height = 2,
      depthInMillimeters = [0, 500, 1000, 1500],
      glProjectionMatrix = [2, 0, 0, 0,  0, 2, 0, 0,  0, 0, 1, 0,  0, 0, 0, 1],
      intrinsics = \<lparr>fx = 2, fy = 4, cx = 1, cy = 1\<rparr>\<rparr>"

definition depthB :: "real depth_frame" where
  "depthB =
     \<lparr>depth_isValid = True, depth_width = 2, depth_height = 1,
      depthInMillimeters = [700, 800],
      glProjectionMatrix = [3, 0, 0, 0,  0, 3, 0, 0,  0, 0, 1, 0,  0, 0, 0, 1],
      intrinsics = \<lparr>fx = 5, fy = 5, cx = 2, cy = 2\<rparr>\<rparr>"

text \<open>The frame \<open>depthA\<close> with other intrinsics and nothing else changed.\<close>

definition depthC :: "real depth_frame" where
  "depthC = depthA\<lparr>intrinsics := \<lparr>fx = 1, fy = 1, cx = 0, cy = 0\<rparr>\<rparr>"

definition frame_of :: "FrameType \<Rightarrow> real depth_frame \<Rightarrow> real Frame" where
  "frame_of t d =
     \<lparr>ftype = t,
      depthFrame = d,
      visibleFrame = \<lparr>visible_isValid = False, visible_width = 0, visible_height = 0, rgbData = []\<rparr>,
      infraredFrame = \<lparr>ir_isValid = False, ir_width = 0, ir_height = 0, ir_data = []\<rparr>,
      accelerometerEvent = \<lparr>acceleration = \<lparr>vec_x = 0, vec_y = 0, vec_z = 0\<rparr>\<rparr>,
      gyroscopeEvent = \<lparr>rotationRate = \<lparr>vec_x = 0, vec_y = 0, vec_z = 0\<rparr>\<rparr>\<rparr>"

text \<open>An object whose depth image holds the pixels of \<open>depthA\<close>, with its intrinsics.\<close>

definition coreA :: "real core" where
  "coreA = fresh_core
     \<lparr>m_depthIntrinsics := intrinsics depthA,
      depthImg := \<lparr>img_width = 2, img_height = 2, img_pixels = [0, 500, 1000, 1500]\<rparr>\<rparr>"

subsection \<open>Auxiliary notions\<close>

text \<open>
  The capture is settled when running the statement after the \<^verbatim>\<open>switch\<close> again would
  store what is stored already.
\<close>

definition capture_settled :: "'f::{zero,one} core \<Rightarrow> bool" where
  "capture_settled s \<longleftrightarrow>
     (m_depthDirty s \<and> m_depthProjectionMatrix s = mat4_identity \<longrightarrow>
        make_mat4 (glProjectionMatrix (m_depthFrame s)) = mat4_identity
      \<and> intrinsics (m_depthFrame s) = m_depthIntrinsics s)"

text \<open>The same frame with another depth image: other pixels, another size.\<close>

definition repaint :: "nat \<Rightarrow> nat \<Rightarrow> 'f list \<Rightarrow> 'f Frame \<Rightarrow> 'f Frame" where
  "repaint w h px frame =
     frame\<lparr>depthFrame := (depthFrame frame)\<lparr>depth_width := w, depth_height := h,
                                              depthInMillimeters := px\<rparr>\<rparr>"

section \<open>The rebuild of the point cloud\<close>

lemma vec3_update_all:
  "(v::'f vec3)\<lparr>vec_x := a, vec_y := b, vec_z := c\<rparr> = \<lparr>vec_x = a, vec_y = b, vec_z = c\<rparr>"
  by (cases v) simp

lemma row_index:
  fixes m cols j :: nat
  assumes "m * cols \<le> j" and "j < m * cols + cols"
  shows "j div cols = m \<and> j mod cols = j - m * cols"
proof -
  define k where "k = j - m * cols"
  have k: "j = k + m * cols"
    unfolding k_def using assms by linarith
  have "k < cols"
    unfolding k_def using assms by linarith
  then have "0 < cols" by simp
  with k \<open>k < cols\<close> show ?thesis by simp
qed

lemma project_pixel_eq:
  "project_pixel toFloat K cols depths r c vs =
     vs[r * cols + c := pixel_vertex toFloat K (depths ! (r * cols + c)) r c]"
  by (simp add: project_pixel_def pixel_vertex_def Let_def vec3_update_all)

lemma length_fold_project_pixel:
  "length (fold (project_pixel toFloat K cols depths r) [0..<n] vs) = length vs"
  by (induction n) (simp_all add: project_pixel_eq)

text \<open>The inner loop, after \<open>n\<close> columns of row \<open>r\<close>.\<close>

lemma fold_project_pixel_nth:
  assumes "j < length vs"
  shows "fold (project_pixel toFloat K cols depths r) [0..<n] vs ! j =
     (if r * cols \<le> j \<and> j < r * cols + n
      then pixel_vertex toFloat K (depths ! j) r (j - r * cols) else vs ! j)"
proof (induction n)
  case 0
  show ?case by auto
next
  case (Suc n)
  let ?ws = "fold (project_pixel toFloat K cols depths r) [0..<n] vs"
  have len: "j < length ?ws"
    using assms by (simp add: length_fold_project_pixel)
  have "fold (project_pixel toFloat K cols depths r) [0..<Suc n] vs ! j =
          (?ws[r * cols + n := pixel_vertex toFloat K (depths ! (r * cols + n)) r n]) ! j"
    by (simp add: project_pixel_eq)
  also have "\<dots> = (if r * cols + n = j then pixel_vertex toFloat K (depths ! j) r n else ?ws ! j)"
    using len by (auto simp add: nth_list_update)
  also have "\<dots> = (if r * cols \<le> j \<and> j < r * cols + Suc n
      then pixel_vertex toFloat K (depths ! j) r (j - r * cols) else vs ! j)"
    unfolding Suc.IH by auto
  finally show ?case .
qed

lemma length_project_row:
  "length (project_row toFloat K cols depths r vs) = length vs"
  by (simp add: project_row_def length_fold_project_pixel)

lemma project_row_nth:
  "j < length vs \<Longrightarrow> project_row toFloat K cols depths r vs ! j =
     (if r * cols \<le> j \<and> j < r * cols + cols
      then pixel_vertex toFloat K (depths ! j) r (j - r * cols) else vs ! j)"
  by (simp add: project_row_def fold_project_pixel_nth)

lemma length_fold_project_row:
  "length (fold (project_row toFloat K cols depths) [0..<m] vs) = length vs"
  by (induction m) (simp_all add: length_project_row)

text \<open>The outer loop, after \<open>m\<close> rows.\<close>

lemma fold_project_row_nth:
  assumes "j < length vs"
  shows "fold (project_row toFloat K cols depths) [0..<m] vs ! j =
     (if j < m * cols
      then pixel_vertex toFloat K (depths ! j) (j div cols) (j mod cols) else vs ! j)"
proof (induction m)
  case 0
  show ?case by simp
next
  case (Suc m)
  let ?ws = "fold (project_row toFloat K cols depths) [0..<m] vs"
  have len: "j < length ?ws"
    using assms by (simp add: length_fold_project_row)
  have step: "fold (project_row toFloat K cols depths) [0..<Suc m] vs ! j =
      (if m * cols \<le> j \<and> j < m * cols + cols
       then pixel_vertex toFloat K (depths ! j) m (j - m * cols) else ?ws ! j)"
    using project_row_nth [OF len] by simp
  show ?case
  proof (cases "m * cols \<le> j \<and> j < m * cols + cols")
    case True
    then show ?thesis
      unfolding step using row_index [of m cols j] by simp
  next
    case False
    then have "j < Suc m * cols \<longleftrightarrow> j < m * cols" by auto
    with False show ?thesis
      unfolding step Suc.IH by simp
  qed
qed

lemma length_resize: "length (resize n vs) = n"
  by (simp add: resize_def)

lemma length_updatePointCloud:
  "length (vertices (pointcloud (updatePointCloud toFloat s))) =
     img_height (depthImg s) * img_width (depthImg s)"
  by (simp add: updatePointCloud_def Let_def length_fold_project_row length_resize)

lemma updatePointCloud_vertices:
  "vertices (pointcloud (updatePointCloud toFloat s)) =
     unproject toFloat (m_depthIntrinsics s) (depthImg s)"
  by (rule nth_equalityI)
     (simp_all add: updatePointCloud_def unproject_def Let_def fold_project_row_nth
        length_fold_project_row length_resize)

lemma updatePointCloud_vbo:
  "vbo (updatePointCloud toFloat s) = vertices (pointcloud (updatePointCloud toFloat s))"
  by (simp add: updatePointCloud_def Let_def length_fold_project_row length_resize)

lemma updatePointCloud_depthImg:
  "depthImg (updatePointCloud toFloat s) = depthImg s"
  by (simp add: updatePointCloud_def Let_def)

lemma pixel_index:
  fixes r c rows cols :: nat
  assumes "r < rows" and "c < cols"
  shows "r * cols + c < rows * cols \<and> (r * cols + c) div cols = r \<and> (r * cols + c) mod cols = c"
proof -
  have "r * cols + c < r * cols + cols"
    using assms by simp
  also have "\<dots> = Suc r * cols" by simp
  also have "\<dots> \<le> rows * cols"
    using assms by (intro mult_le_mono1) simp
  finally show ?thesis
    using assms by simp
qed

text \<open>
  C1. For the pixel at row \<open>r\<close> and column \<open>c\<close> of the depth image, with depth \<open>d\<close>, the
  rebuild of the point cloud stores the vertex \<open>(d * (c - cx) / fx, d * (r - cy) / fy, d)\<close>
  at index \<open>r * cols + c\<close>, computed from the captured intrinsics in the arithmetic of
  \<open>'f\<close>, whatever \<open>d\<close> is. No branch looks at \<open>d\<close>: for \<open>d = 0\<close> the same formula is
  evaluated, and it gives \<open>(0, 0, 0)\<close> as soon as zero times the pixel offset and zero
  over the focal length are zero in that arithmetic (as they are in every field, and for
  finite operands and a non-zero focal length in IEEE arithmetic).
\<close>

theorem updatePointCloud_vertex:
  fixes s :: "'f::{zero,times,minus,inverse} core" and toFloat :: "int \<Rightarrow> 'f"
  assumes "r < img_height (depthImg s)" and "c < img_width (depthImg s)"
    and "r * img_width (depthImg s) + c < length (img_pixels (depthImg s))"
  defines "i \<equiv> r * img_width (depthImg s) + c"
  defines "d \<equiv> img_pixels (depthImg s) ! i"
  defines "K \<equiv> m_depthIntrinsics s"
  defines "v \<equiv> vertices (pointcloud (updatePointCloud toFloat s)) ! i"
  shows "v = \<lparr>vec_x = d * (toFloat (int c) - cx K) / fx K,
              vec_y = d * (toFloat (int r) - cy K) / fy K,
              vec_z = d\<rparr>
       \<and> (d = 0 \<and> 0 * (toFloat (int c) - cx K) = 0 \<and> 0 / fx K = 0
              \<and> 0 * (toFloat (int r) - cy K) = 0 \<and> 0 / fy K = 0
            \<longrightarrow> v = \<lparr>vec_x = 0, vec_y = 0, vec_z = 0\<rparr>)"
proof -
  have idx: "i < img_height (depthImg s) * img_width (depthImg s)"
      "i div img_width (depthImg s) = r" "i mod img_width (depthImg s) = c"
    using pixel_index [OF assms(1,2)] by (simp_all add: i_def)
  have "v = unproject toFloat K (depthImg s) ! i"
    by (simp add: v_def K_def updatePointCloud_vertices)
  also have "\<dots> = pixel_vertex toFloat K d r c"
    using idx by (simp add: unproject_def d_def)
  finally have v: "v = pixel_vertex toFloat K d r c" .
  then show ?thesis
    by (auto simp add: pixel_vertex_def)
qed

theorem updatePointCloud_vertex_witness:
  "vertices (pointcloud (updatePointCloud of_int coreA)) ! 0 = \<lparr>vec_x = 0, vec_y = 0, vec_z = 0\<rparr>
   \<and> vertices (pointcloud (updatePointCloud of_int coreA)) ! 3 = \<lparr>vec_x = 0, vec_y = 0, vec_z = 1500\<rparr>
   \<and> vertices (pointcloud (updatePointCloud of_int coreA)) ! 2 = \<lparr>vec_x = - 500, vec_y = 0, vec_z = 1000\<rparr>"
  using updatePointCloud_vertex [of 0 coreA 0 of_int]
        updatePointCloud_vertex [of 1 coreA 1 of_int]
        updatePointCloud_vertex [of 1 coreA 0 of_int]
  by (simp add: coreA_def fresh_core_def depthA_def)

text \<open>
  C8. After a rebuild the point cloud has one vertex per pixel of the depth image, width
  times height of them, whatever its length was before; the rebuild leaves the depth image
  as it is, and the vertex buffer holds the same vertices.
\<close>

theorem updatePointCloud_length:
  "length (vertices (pointcloud (updatePointCloud toFloat s))) =
     img_width (depthImg (updatePointCloud toFloat s)) * img_height (depthImg (updatePointCloud toFloat s))
   \<and> depthImg (updatePointCloud toFloat s) = depthImg s
   \<and> length (vbo (updatePointCloud toFloat s)) = img_width (depthImg s) * img_height (depthImg s)"
  by (simp add: length_updatePointCloud updatePointCloud_depthImg updatePointCloud_vbo mult.commute)

section \<open>The drain\<close>

lemma update_capture [simp]:
  "m_depthProjectionMatrix (update toFloat s) = m_depthProjectionMatrix s"
  "m_depthIntrinsics (update toFloat s) = m_depthIntrinsics s"
  by (simp_all add: update_def Let_def updatePointCloud_def)

lemma update_depthDirty [simp]: "\<not> m_depthDirty (update toFloat s)"
  by (simp add: update_def Let_def updatePointCloud_def)

lemma update_streamOnReady:
  "m_streamOnReady (update toFloat s) = m_streamOnReady s"
  by (simp add: update_def Let_def updatePointCloud_def)

lemma update_depth:
  assumes "m_depthDirty s"
  shows "depthImg (update toFloat s) =
           setFromPixels (depthInMillimeters (m_depthFrame s)) (depth_width (m_depthFrame s))
             (depth_height (m_depthFrame s)) 1 (depthImg s)"
    and "vertices (pointcloud (update toFloat s)) =
           unproject toFloat (m_depthIntrinsics s) (depthImg (update toFloat s))"
    and "vbo (update toFloat s) = vertices (pointcloud (update toFloat s))"
proof -
  let ?s1 = "s\<lparr>m_isFrameNew := (m_depthDirty s \<or> m_irDirty s \<or> m_visibleDirty s),
                depthImg := setFromPixels (depthInMillimeters (m_depthFrame s))
                  (depth_width (m_depthFrame s)) (depth_height (m_depthFrame s)) 1 (depthImg s)\<rparr>"
  have img: "depthImg (update toFloat s) = depthImg (updatePointCloud toFloat ?s1)"
    and pc: "pointcloud (update toFloat s) = pointcloud (updatePointCloud toFloat ?s1)"
    and vb: "vbo (update toFloat s) = vbo (updatePointCloud toFloat ?s1)"
    using assms by (simp_all add: update_def Let_def)
  show "depthImg (update toFloat s) =
           setFromPixels (depthInMillimeters (m_depthFrame s)) (depth_width (m_depthFrame s))
             (depth_height (m_depthFrame s)) 1 (depthImg s)"
    by (simp add: img updatePointCloud_depthImg)
  show "vertices (pointcloud (update toFloat s)) =
           unproject toFloat (m_depthIntrinsics s) (depthImg (update toFloat s))"
    by (simp add: img pc updatePointCloud_vertices updatePointCloud_depthImg)
  show "vbo (update toFloat s) = vertices (pointcloud (update toFloat s))"
    by (simp add: pc vb updatePointCloud_vbo)
qed

text \<open>
  C6. The drain sets the new-frame signal to the disjunction of the three dirty flags as
  they are when it is entered. When none of them is set, the three images, the point cloud
  and the vertex buffer are as before and the signal is off: the drain changes nothing but
  the signal.
\<close>

theorem update_isFrameNew:
  "m_isFrameNew (update toFloat s) = (m_depthDirty s \<or> m_irDirty s \<or> m_visibleDirty s)
   \<and> (\<not> m_depthDirty s \<and> \<not> m_irDirty s \<and> \<not> m_visibleDirty s \<longrightarrow>
        depthImg (update toFloat s) = depthImg s
      \<and> irImg (update toFloat s) = irImg s
      \<and> visibleImg (update toFloat s) = visibleImg s
      \<and> pointcloud (update toFloat s) = pointcloud s
      \<and> vbo (update toFloat s) = vbo s
      \<and> \<not> m_isFrameNew (update toFloat s)
      \<and> update toFloat s = s\<lparr>m_isFrameNew := False\<rparr>)"
  by (simp add: update_def Let_def updatePointCloud_def)

theorem update_isFrameNew_witness:
  "\<not> m_depthDirty coreA \<and> \<not> m_irDirty coreA \<and> \<not> m_visibleDirty coreA
   \<and> \<not> m_isFrameNew (update of_int coreA)
   \<and> depthImg (update of_int coreA) = \<lparr>img_width = 2, img_height = 2, img_pixels = [0, 500, 1000, 1500]\<rparr>
   \<and> pointcloud (update of_int coreA) = \<lparr>vertices = []\<rparr>
   \<and> vbo (update of_int coreA) = []"
  using update_isFrameNew [of of_int coreA]
  by (simp add: coreA_def fresh_core_def)

section \<open>The frame callback\<close>

lemma storeFrame_capture [simp]:
  "m_depthProjectionMatrix (storeFrame t frame s) = m_depthProjectionMatrix s"
  "m_depthIntrinsics (storeFrame t frame s) = m_depthIntrinsics s"
  by (cases t; simp add: Let_def)+

lemma storeFrame_streamOnReady:
  "m_streamOnReady (storeFrame t frame s) = m_streamOnReady s"
  by (cases t) (simp_all add: Let_def)

lemma handleNewFrame_streamOnReady:
  "m_streamOnReady (handleNewFrame s frame) = m_streamOnReady s"
  by (simp add: handleNewFrame_def captureIntrinsics_def storeFrame_streamOnReady)

lemma storeFrame_no_depth:
  "\<not> carriesDepth frame \<Longrightarrow> m_depthDirty (storeFrame (ftype frame) frame s) = m_depthDirty s"
  by (cases "ftype frame") (simp_all add: carriesDepth_def Let_def)

lemma storeFrame_depth:
  "carriesDepth frame \<Longrightarrow>
     m_depthDirty (storeFrame (ftype frame) frame s) \<and>
     m_depthFrame (storeFrame (ftype frame) frame s) = depthFrame frame"
  by (cases "ftype frame") (simp_all add: carriesDepth_def Let_def)

lemma handleNewFrame_depth:
  assumes "carriesDepth frame"
  shows "m_depthFrame (handleNewFrame s frame) = depthFrame frame \<and> m_depthDirty (handleNewFrame s frame)"
  using storeFrame_depth [OF assms, of s]
  by (simp add: handleNewFrame_def captureIntrinsics_def)

text \<open>
  C7. A bundle of synchronized frames replaces the slot and sets the dirty flag of exactly
  the modalities whose part of the bundle is valid, each on its own, and leaves the motion
  registers alone. With only the depth part valid, the depth slot holds the bundle's depth
  frame and is dirty, and the infrared and visible slots and flags are as before.
\<close>

theorem synchronized_frames_per_modality:
  fixes s :: "'f::{zero,one} core" and frame :: "'f Frame"
  assumes "ftype frame = SynchronizedFrames"
  defines "s' \<equiv> handleNewFrame s frame"
  shows "m_depthFrame s' = (if depth_isValid (depthFrame frame) then depthFrame frame else m_depthFrame s)
       \<and> m_depthDirty s' = (depth_isValid (depthFrame frame) \<or> m_depthDirty s)
       \<and> m_visibleFrame s' = (if visible_isValid (visibleFrame frame) then visibleFrame frame else m_visibleFrame s)
       \<and> m_visibleDirty s' = (visible_isValid (visibleFrame frame) \<or> m_visibleDirty s)
       \<and> m_irFrame s' = (if ir_isValid (infraredFrame frame) then infraredFrame frame else m_irFrame s)
       \<and> m_irDirty s' = (ir_isValid (infraredFrame frame) \<or> m_irDirty s)
       \<and> m_accelerometerEvent s' = m_accelerometerEvent s
       \<and> m_gyroscopeEvent s' = m_gyroscopeEvent s
       \<and> (depth_isValid (depthFrame frame) \<and> \<not> visible_isValid (visibleFrame frame)
            \<and> \<not> ir_isValid (infraredFrame frame) \<longrightarrow>
              m_depthFrame s' = depthFrame frame \<and> m_depthDirty s'
            \<and> m_irFrame s' = m_irFrame s \<and> m_irDirty s' = m_irDirty s
            \<and> m_visibleFrame s' = m_visibleFrame s \<and> m_visibleDirty s' = m_visibleDirty s)"
  using assms by (simp add: handleNewFrame_def captureIntrinsics_def Let_def)

theorem synchronized_frames_per_modality_witness:
  "ftype (frame_of SynchronizedFrames depthA) = SynchronizedFrames
   \<and> depth_isValid (depthFrame (frame_of SynchronizedFrames depthA))
   \<and> \<not> visible_isValid (visibleFrame (frame_of SynchronizedFrames depthA))
   \<and> \<not> ir_isValid (infraredFrame (frame_of SynchronizedFrames depthA))
   \<and> m_depthFrame (handleNewFrame fresh_core (frame_of SynchronizedFrames depthA)) = depthA
   \<and> m_depthDirty (handleNewFrame fresh_core (frame_of SynchronizedFrames depthA))
   \<and> \<not> m_irDirty (handleNewFrame fresh_core (frame_of SynchronizedFrames depthA))
   \<and> \<not> m_visibleDirty (handleNewFrame fresh_core (frame_of SynchronizedFrames depthA))
   \<and> m_irFrame (handleNewFrame fresh_core (frame_of SynchronizedFrames depthA)) = m_irFrame fresh_core
   \<and> m_visibleFrame (handleNewFrame fresh_core (frame_of SynchronizedFrames depthA)) = m_visibleFrame fresh_core"
  using synchronized_frames_per_modality [of "frame_of SynchronizedFrames depthA" fresh_core]
  by (simp add: frame_of_def depthA_def fresh_core_def)

text \<open>
  The first of two depth frames leaves no trace of its image: the second overwrites the slot.
\<close>

lemma repaint_simps [simp]:
  "ftype (repaint w h px frame) = ftype frame"
  "carriesDepth (repaint w h px frame) = carriesDepth frame"
  "glProjectionMatrix (depthFrame (repaint w h px frame)) = glProjectionMatrix (depthFrame frame)"
  "intrinsics (depthFrame (repaint w h px frame)) = intrinsics (depthFrame frame)"
  by (simp_all add: repaint_def carriesDepth_def)

lemma storeFrame_repaint:
  assumes "carriesDepth frame"
  shows "storeFrame (ftype frame) (repaint w h px frame) s =
         (storeFrame (ftype frame) frame s)\<lparr>m_depthFrame := depthFrame (repaint w h px frame)\<rparr>"
  using assms
  by (cases "ftype frame") (simp_all add: carriesDepth_def repaint_def Let_def)

lemma captureIntrinsics_slot:
  assumes "glProjectionMatrix d = glProjectionMatrix (m_depthFrame s)"
    and "intrinsics d = intrinsics (m_depthFrame s)"
  shows "captureIntrinsics (s\<lparr>m_depthFrame := d\<rparr>) = (captureIntrinsics s)\<lparr>m_depthFrame := d\<rparr>"
  using assms by (simp add: captureIntrinsics_def)

lemma storeFrame_overwrites:
  assumes "carriesDepth frame"
  shows "storeFrame (ftype frame) frame (s\<lparr>m_depthFrame := d\<rparr>) = storeFrame (ftype frame) frame s"
  using assms
  by (cases "ftype frame") (simp_all add: carriesDepth_def Let_def)

lemma first_frame_lost:
  fixes s :: "'f::{zero,one} core"
  assumes "carriesDepth f1" and "carriesDepth f2"
  shows "handleNewFrame (handleNewFrame s (repaint w h px f1)) f2 = handleNewFrame (handleNewFrame s f1) f2"
proof -
  let ?t = "storeFrame (ftype f1) f1 s"
  let ?d = "depthFrame (repaint w h px f1)"
  have slot: "m_depthFrame ?t = depthFrame f1"
    using storeFrame_depth [OF assms(1), of s] by simp
  have "handleNewFrame s (repaint w h px f1) = captureIntrinsics (?t\<lparr>m_depthFrame := ?d\<rparr>)"
    by (simp add: handleNewFrame_def storeFrame_repaint [OF assms(1)])
  also have "\<dots> = (captureIntrinsics ?t)\<lparr>m_depthFrame := ?d\<rparr>"
    by (rule captureIntrinsics_slot) (simp_all add: slot)
  finally have "handleNewFrame s (repaint w h px f1) = (handleNewFrame s f1)\<lparr>m_depthFrame := ?d\<rparr>"
    by (simp add: handleNewFrame_def)
  then show ?thesis
    by (simp add: handleNewFrame_def storeFrame_overwrites [OF assms(2)])
qed

text \<open>What a frame that carries a depth image does to the intrinsics and the matrix.\<close>

lemma handleNewFrame_capture_if:
  assumes "carriesDepth frame"
  shows "m_depthIntrinsics (handleNewFrame s frame) =
           (if m_depthProjectionMatrix s = mat4_identity then intrinsics (depthFrame frame)
            else m_depthIntrinsics s)"
    and "m_depthProjectionMatrix (handleNewFrame s frame) =
           (if m_depthProjectionMatrix s = mat4_identity
            then make_mat4 (glProjectionMatrix (depthFrame frame))
            else m_depthProjectionMatrix s)"
  using storeFrame_depth [OF assms, of s]
  by (simp_all add: handleNewFrame_def captureIntrinsics_def)

lemma two_frames_intrinsics:
  assumes "carriesDepth f1" and "carriesDepth f2"
  shows "m_depthIntrinsics (handleNewFrame (handleNewFrame s f1) f2) =
           (if m_depthProjectionMatrix s \<noteq> mat4_identity then m_depthIntrinsics s
            else if make_mat4 (glProjectionMatrix (depthFrame f1)) \<noteq> mat4_identity
                 then intrinsics (depthFrame f1)
                 else intrinsics (depthFrame f2))"
  by (simp add: handleNewFrame_capture_if [OF assms(2)] handleNewFrame_capture_if [OF assms(1)])

text \<open>The sample data, evaluated.\<close>

lemma sample_simps:
  "carriesDepth (frame_of DepthFrame d)"
  "depthFrame (frame_of t d) = d"
  "m_depthProjectionMatrix (fresh_core :: real core) = mat4_identity"
  "make_mat4 (glProjectionMatrix depthA) \<noteq> mat4_identity"
  "make_mat4 (glProjectionMatrix depthC) \<noteq> mat4_identity"
  "make_mat4 (glProjectionMatrix depthB) \<noteq> mat4_identity"
  "intrinsics depthA = \<lparr>fx = 2, fy = 4, cx = 1, cy = 1\<rparr>"
  "intrinsics depthC = \<lparr>fx = 1, fy = 1, cx = 0, cy = 0\<rparr>"
  "intrinsics depthB = \<lparr>fx = 5, fy = 5, cx = 2, cy = 2\<rparr>"
  by (simp_all add: carriesDepth_def frame_of_def fresh_core_def depthA_def depthB_def depthC_def
        make_mat4_def mat4_identity_def)

lemma unproject_two_by_one:
  "unproject toFloat K \<lparr>img_width = 2, img_height = Suc 0, img_pixels = [p, q]\<rparr> =
     [pixel_vertex toFloat K p 0 0, pixel_vertex toFloat K q 0 (Suc 0)]"
proof -
  have "[0..<2::nat] = [0, Suc 0]"
    by (simp add: upt_conv_Cons)
  then show ?thesis
    by (simp add: unproject_def)
qed

lemma drained_after_depthB:
  fixes s :: "real core"
  defines "sa \<equiv> handleNewFrame s (frame_of DepthFrame depthB)"
  shows "vertices (pointcloud (update of_int sa)) =
           [pixel_vertex of_int (m_depthIntrinsics sa) 700 0 0,
            pixel_vertex of_int (m_depthIntrinsics sa) 800 0 (Suc 0)]"
proof -
  have sa: "m_depthFrame sa = depthB" "m_depthDirty sa"
    using handleNewFrame_depth [OF sample_simps(1), of s depthB]
    by (simp_all add: sa_def sample_simps)
  have img: "depthImg (update of_int sa) =
      \<lparr>img_width = 2, img_height = Suc 0, img_pixels = [700, 800]\<rparr>"
    unfolding update_depth(1) [OF sa(2)] sa(1)
    by (cases "depthImg sa") (simp add: setFromPixels_def depthB_def)
  show ?thesis
    unfolding update_depth(2) [OF sa(2)] img unproject_two_by_one ..
qed




section \<open>The capture of the intrinsics\<close>

lemma handleSessionEvent_capture [simp]:
  "m_depthProjectionMatrix (handleSessionEvent b evt s) = m_depthProjectionMatrix s"
  "m_depthIntrinsics (handleSessionEvent b evt s) = m_depthIntrinsics s"
  "m_depthDirty (handleSessionEvent b evt s) = m_depthDirty s"
  "m_depthFrame (handleSessionEvent b evt s) = m_depthFrame s"
  by (cases evt; simp add: start_def Let_def)+

lemma control_capture [simp]:
  "m_depthProjectionMatrix (snd (start b s)) = m_depthProjectionMatrix s"
  "m_depthIntrinsics (snd (start b s)) = m_depthIntrinsics s"
  "m_depthDirty (snd (start b s)) = m_depthDirty s"
  "m_depthFrame (snd (start b s)) = m_depthFrame s"
  "m_depthProjectionMatrix (stop s) = m_depthProjectionMatrix s"
  "m_depthIntrinsics (stop s) = m_depthIntrinsics s"
  "m_depthDirty (stop s) = m_depthDirty s"
  "m_depthFrame (stop s) = m_depthFrame s"
  "m_depthProjectionMatrix (snd (setup_core b s)) = m_depthProjectionMatrix s"
  "m_depthIntrinsics (snd (setup_core b s)) = m_depthIntrinsics s"
  "m_depthDirty (snd (setup_core b s)) = m_depthDirty s"
  "m_depthFrame (snd (setup_core b s)) = m_depthFrame s"
  by (simp_all add: start_def stop_def setup_core_def Let_def)

lemma run_append: "run toFloat (es @ es') s = run toFloat es' (run toFloat es s)"
  by (simp add: run_def)

text \<open>Before the first depth frame nothing is pending and the matrix stays what it is.\<close>

lemma apply_event_before:
  assumes "\<not> deliversDepth e" and "\<not> m_depthDirty s"
  shows "\<not> m_depthDirty (apply_event toFloat e s)
       \<and> m_depthProjectionMatrix (apply_event toFloat e s) = m_depthProjectionMatrix s
       \<and> m_depthIntrinsics (apply_event toFloat e s) = m_depthIntrinsics s"
  using assms
  by (cases e) (simp_all add: handleNewFrame_def captureIntrinsics_def storeFrame_no_depth)

lemma run_before:
  assumes "\<forall>e\<in>set es. \<not> deliversDepth e" and "\<not> m_depthDirty s"
  shows "\<not> m_depthDirty (run toFloat es s)
       \<and> m_depthProjectionMatrix (run toFloat es s) = m_depthProjectionMatrix s
       \<and> m_depthIntrinsics (run toFloat es s) = m_depthIntrinsics s"
  using assms
proof (induction es arbitrary: s)
  case Nil
  then show ?case by (simp add: run_def)
next
  case (Cons e es)
  have e: "\<not> deliversDepth e" and es: "\<forall>e\<in>set es. \<not> deliversDepth e"
    using Cons.prems(1) by simp_all
  note step = apply_event_before [OF e Cons.prems(2), of toFloat]
  have "run toFloat (e # es) s = run toFloat es (apply_event toFloat e s)"
    by (simp add: run_def)
  with Cons.IH [OF es, of "apply_event toFloat e s"] step show ?case
    by simp
qed

text \<open>The first depth frame finds the identity and triggers the capture.\<close>

lemma handleNewFrame_captures:
  assumes "carriesDepth frame" and "m_depthProjectionMatrix s = mat4_identity"
  shows "m_depthProjectionMatrix (handleNewFrame s frame) = make_mat4 (glProjectionMatrix (depthFrame frame))
       \<and> m_depthIntrinsics (handleNewFrame s frame) = intrinsics (depthFrame frame)"
  using assms storeFrame_depth [OF assms(1), of s]
  by (simp add: handleNewFrame_def captureIntrinsics_def)

text \<open>Once the matrix is not the identity the guard never holds again.\<close>

lemma apply_event_after:
  assumes "m_depthProjectionMatrix s \<noteq> mat4_identity"
  shows "m_depthProjectionMatrix (apply_event toFloat e s) = m_depthProjectionMatrix s
       \<and> m_depthIntrinsics (apply_event toFloat e s) = m_depthIntrinsics s"
  using assms
  by (cases e) (simp_all add: handleNewFrame_def captureIntrinsics_def)

lemma run_after:
  assumes "m_depthProjectionMatrix s \<noteq> mat4_identity"
  shows "m_depthProjectionMatrix (run toFloat es s) = m_depthProjectionMatrix s
       \<and> m_depthIntrinsics (run toFloat es s) = m_depthIntrinsics s"
  using assms
proof (induction es arbitrary: s)
  case Nil
  show ?case by (simp add: run_def)
next
  case (Cons e es)
  note step = apply_event_after [OF Cons.prems, of toFloat e]
  then have "m_depthProjectionMatrix (apply_event toFloat e s) \<noteq> mat4_identity"
    using Cons.prems by simp
  from Cons.IH [OF this] step show ?case
    by (simp add: run_def)
qed

text \<open>
  C2. The object starts with no depth frame pending and the identity as its projection
  matrix. Whatever happens before the first frame that carries a depth image (frames of
  other kinds, session events, drains, calls of start and stop), that frame, if its
  projection matrix is not the identity, sets the intrinsics and the matrix; and whatever
  happens afterwards, frames of any kind included, both keep the values of that frame.
\<close>

theorem intrinsics_captured_once:
  fixes s :: "'f::{zero,one,times,minus,inverse} core" and toFloat :: "int \<Rightarrow> 'f"
  assumes "\<not> m_depthDirty s" and "m_depthProjectionMatrix s = mat4_identity"
    and "\<forall>e\<in>set pre. \<not> deliversDepth e"
    and "carriesDepth frame"
    and "make_mat4 (glProjectionMatrix (depthFrame frame)) \<noteq> mat4_identity"
  defines "s1 \<equiv> run toFloat (pre @ [NewFrame frame]) s"
  shows "m_depthIntrinsics s1 = intrinsics (depthFrame frame)
       \<and> m_depthProjectionMatrix s1 = make_mat4 (glProjectionMatrix (depthFrame frame))
       \<and> m_depthIntrinsics (run toFloat post s1) = intrinsics (depthFrame frame)
       \<and> m_depthProjectionMatrix (run toFloat post s1) = make_mat4 (glProjectionMatrix (depthFrame frame))"
proof -
  let ?sp = "run toFloat pre s"
  have "m_depthProjectionMatrix ?sp = mat4_identity"
    using run_before [OF assms(3) assms(1), of toFloat] assms(2) by simp
  then have cap: "m_depthProjectionMatrix (handleNewFrame ?sp frame) = make_mat4 (glProjectionMatrix (depthFrame frame))
       \<and> m_depthIntrinsics (handleNewFrame ?sp frame) = intrinsics (depthFrame frame)"
    by (rule handleNewFrame_captures [OF assms(4)])
  have s1: "s1 = handleNewFrame ?sp frame"
    by (simp add: s1_def run_append) (simp add: run_def)
  have "m_depthProjectionMatrix s1 \<noteq> mat4_identity"
    using cap assms(5) by (simp add: s1)
  from run_after [OF this, of toFloat post] cap show ?thesis
    by (simp add: s1)
qed

theorem intrinsics_captured_once_witness:
  "\<not> deliversDepth (NewFrame (frame_of GyroscopeEvent depthB)) \<and> \<not> deliversDepth (Update :: real event)
   \<and> carriesDepth (frame_of DepthFrame depthA)
   \<and> make_mat4 (glProjectionMatrix (depthFrame (frame_of DepthFrame depthA))) \<noteq> mat4_identity
   \<and> m_depthIntrinsics
        (run of_int [NewFrame (frame_of DepthFrame depthB), Update, NewFrame (frame_of SynchronizedFrames depthB)]
          (run of_int ([NewFrame (frame_of GyroscopeEvent depthB), Update] @ [NewFrame (frame_of DepthFrame depthA)])
             fresh_core))
      = \<lparr>fx = 2, fy = 4, cx = 1, cy = 1\<rparr>"
  using intrinsics_captured_once
    [where s = fresh_core and toFloat = of_int
       and pre = "[NewFrame (frame_of GyroscopeEvent depthB), Update]"
       and frame = "frame_of DepthFrame depthA"
       and post = "[NewFrame (frame_of DepthFrame depthB), Update, NewFrame (frame_of SynchronizedFrames depthB)]"]
  by (simp add: fresh_core_def carriesDepth_def frame_of_def depthA_def make_mat4_def mat4_identity_def)

text \<open>The capture stays settled along every run.\<close>

lemma capture_settled_fresh: "\<not> m_depthDirty s \<Longrightarrow> capture_settled s"
  by (simp add: capture_settled_def)

lemma capture_settled_apply_event:
  "capture_settled s \<Longrightarrow> capture_settled (apply_event toFloat e s)"
proof (cases e)
  case (NewFrame frame)
  then show ?thesis
    by (auto simp add: capture_settled_def handleNewFrame_def captureIntrinsics_def)
next
  case Update
  then show ?thesis
    by (simp add: capture_settled_def)
qed (simp_all add: capture_settled_def)

lemma capture_settled_run:
  "capture_settled s \<Longrightarrow> capture_settled (run toFloat es s)"
proof (induction es arbitrary: s)
  case Nil
  then show ?case by (simp add: run_def)
next
  case (Cons e es)
  from Cons.IH [OF capture_settled_apply_event [OF Cons.prems]] show ?case
    by (simp add: run_def)
qed

lemma captureIntrinsics_settled:
  "capture_settled s \<Longrightarrow> captureIntrinsics s = s"
  by (auto simp add: capture_settled_def captureIntrinsics_def)

text \<open>
  C9. In every state the object reaches from one with no depth frame pending, a frame of
  a kind the \<^verbatim>\<open>switch\<close> has no case for changes nothing: slots, dirty flags, motion
  registers, intrinsics, projection matrix and all the rest are as before. The statement
  after the \<^verbatim>\<open>switch\<close> does run for such a frame, but in these states it can only store
  again what is stored.
\<close>

theorem unrecognized_frame_no_change:
  fixes s :: "'f::{zero,one,times,minus,inverse} core"
  assumes "\<not> m_depthDirty s" and "ftype frame = OtherType k"
  shows "handleNewFrame (run toFloat es s) frame = run toFloat es s"
proof -
  have "capture_settled (run toFloat es s)"
    using assms(1) by (intro capture_settled_run capture_settled_fresh)
  then show ?thesis
    using assms(2) by (simp add: handleNewFrame_def captureIntrinsics_settled)
qed

theorem unrecognized_frame_no_change_witness:
  "\<not> m_depthDirty (fresh_core :: real core) \<and> ftype (frame_of (OtherType 7) depthB) = OtherType 7
   \<and> handleNewFrame (run of_int [NewFrame (frame_of DepthFrame depthA), Start False] fresh_core)
        (frame_of (OtherType 7) depthB)
      = run of_int [NewFrame (frame_of DepthFrame depthA), Start False] fresh_core"
  using unrecognized_frame_no_change
    [where s = "fresh_core :: real core" and frame = "frame_of (OtherType 7) depthB" and k = 7
       and toFloat = of_int and es = "[NewFrame (frame_of DepthFrame depthA), Start False]"]
  by (simp add: fresh_core_def frame_of_def)

section \<open>Session control\<close>

lemma handleSessionEvent_streamOnReady:
  "m_streamOnReady s \<Longrightarrow> m_streamOnReady (handleSessionEvent streaming evt s)"
  by (cases evt) (simp_all add: start_def Let_def)

text \<open>
  C3. The source declares \<^verbatim>\<open>bool setup(const Settings&)\<close> and tests what
  \<^verbatim>\<open>startMonitoring\<close> returned, but neither branch returns it: the function ends without a
  \<^verbatim>\<open>return\<close> statement, whether monitoring came up or not, so the caller is handed no
  success indicator.
\<close>

theorem setup_core_returns_no_value:
  "fst (setup_core True (fresh_core :: real core)) = None
   \<and> fst (setup_core False (fresh_core :: real core)) = None
   \<and> fst (setup_core True (fresh_core :: real core)) \<noteq> Some True
   \<and> fst (setup_core False (fresh_core :: real core)) \<noteq> Some False"
  by (simp add: setup_core_def)

text \<open>
  C5. When the stream does not begin and no deferred start is pending, start() sets the
  deferred-start flag and returns false, after one call of \<^verbatim>\<open>startStreaming\<close>. In any
  state with the flag set, the Ready event does what start() does; right after the failed
  start this is a second call of \<^verbatim>\<open>startStreaming\<close>, made without the caller.
\<close>

theorem start_failure_defers:
  assumes "\<not> m_streamOnReady s"
  shows "start False s =
           (False, s\<lparr>m_captureSession := m_captureSession s @ [StartStreaming],
                      m_isStreaming := False, m_streamOnReady := True\<rparr>)
       \<and> (m_streamOnReady s' \<longrightarrow>
            handleSessionEvent streaming Ready s' = snd (start streaming s'))
       \<and> handleSessionEvent streaming Ready (snd (start False s)) =
            snd (start streaming (snd (start False s)))
       \<and> m_captureSession (handleSessionEvent streaming Ready (snd (start False s))) =
            m_captureSession s @ [StartStreaming, StartStreaming]"
  using assms by (simp add: start_def Let_def)

theorem start_failure_defers_witness:
  "\<not> m_streamOnReady (fresh_core :: real core)
   \<and> fst (start False (fresh_core :: real core)) = False
   \<and> m_streamOnReady (snd (start False (fresh_core :: real core)))
   \<and> m_captureSession (handleSessionEvent True Ready (snd (start False (fresh_core :: real core)))) =
        [StartStreaming, StartStreaming]"
proof -
  have h: "\<not> m_streamOnReady (fresh_core :: real core)"
    and c: "m_captureSession (fresh_core :: real core) = []"
    by (simp_all add: fresh_core_def)
  from start_failure_defers [OF h, where s' = "snd (start False (fresh_core :: real core))"
      and streaming = True]
  show ?thesis
    using h c by (simp add: start_def Let_def)
qed

text \<open>
  C10. A start() that succeeds leaves the deferred-start flag as it was. If the flag was
  set, the next Ready event therefore calls start() again. stop() clears the flag, and
  nothing else does: after any other call or callback a set flag is still set.
\<close>

theorem successful_start_keeps_streamOnReady:
  "m_streamOnReady (snd (start True s)) = m_streamOnReady s
   \<and> (m_streamOnReady s \<longrightarrow>
        handleSessionEvent streaming Ready (snd (start True s)) =
          snd (start streaming (snd (start True s))))
   \<and> \<not> m_streamOnReady (stop s)
   \<and> (e \<noteq> Stop \<and> m_streamOnReady s \<longrightarrow> m_streamOnReady (apply_event toFloat e s))"
proof -
  have "e \<noteq> Stop \<Longrightarrow> m_streamOnReady s \<Longrightarrow> m_streamOnReady (apply_event toFloat e s)"
    by (cases e)
       (simp_all add: handleNewFrame_streamOnReady update_streamOnReady
          handleSessionEvent_streamOnReady start_def setup_core_def Let_def)
  then show ?thesis
    by (simp add: start_def stop_def Let_def)
qed

theorem successful_start_keeps_streamOnReady_witness:
  "m_streamOnReady (snd (start False (fresh_core :: real core)))
   \<and> m_streamOnReady (snd (start True (snd (start False (fresh_core :: real core)))))
   \<and> m_captureSession (handleSessionEvent True Ready
        (snd (start True (snd (start False (fresh_core :: real core)))))) =
        [StartStreaming, StartStreaming, StartStreaming]
   \<and> Update \<noteq> (Stop :: real event)
   \<and> m_streamOnReady (apply_event of_int Update (snd (start False (fresh_core :: real core))))"
  using successful_start_keeps_streamOnReady
    [where s = "snd (start False (fresh_core :: real core))" and streaming = True
       and e = Update and toFloat = of_int]
  by (simp add: start_def fresh_core_def Let_def)

end
